theory Spec2Isabelle
  imports Main "HOL-Library.Sublist"
begin

section \<open>Values exchanged with the client\<close>

text \<open>
  \<^verbatim>\<open>json.loads\<close> turns a text frame into a Python value: \<^verbatim>\<open>None\<close>, a bool, a number,
  a \<^verbatim>\<open>str\<close>, a \<^verbatim>\<open>list\<close> or a \<^verbatim>\<open>dict\<close> with \<^verbatim>\<open>str\<close> keys. A dict is kept as the list
  of its items in insertion order (the order matters when a dict is iterated or serialised);
  a key is looked up with \<^const>\<open>map_of\<close>. Numbers are only ever tested for being
  something else than a string, a list or a dict, so one constructor stands for all of them.
  The same type describes the dicts handed to \<^verbatim>\<open>json.dumps\<close> before a frame is sent.
  A string is the list of its characters; the code only compares strings, joins them and
  cuts them at \<^verbatim>\<open>/\<close>.
\<close>

datatype json =
    JNull
  | JBool bool
  | JNum int
  | JStr string
  | JArr "json list"
  | JObj "(string \<times> json) list"

text \<open>The exceptions that the modelled code paths can raise.\<close>

datatype error =
    JSONDecodeError
  | TypeError
  | AttributeError
  | KeyError
  | ValueError
  | FileNotFoundError
  | FileExistsError
  | NotADirectoryError
  | IsADirectoryError

text \<open>\<^verbatim>\<open>s.startswith(p)\<close> and \<^verbatim>\<open>s.endswith(p)\<close> on strings.\<close>

definition startswith :: "string \<Rightarrow> string \<Rightarrow> bool" where
  "startswith p s = (take (length p) s = p)"

definition endswith :: "string \<Rightarrow> string \<Rightarrow> bool" where
  "endswith p s = (drop (length s - length p) s = p \<and> length p \<le> length s)"

text \<open>\<^verbatim>\<open>p in s\<close> for two strings: \<open>p\<close> occurs in \<open>s\<close> as a contiguous run.\<close>

fun contains_str :: "string \<Rightarrow> string \<Rightarrow> bool" where
  "contains_str p [] = (p = [])"
| "contains_str p (c # cs) = (startswith p (c # cs) \<or> contains_str p cs)"

text \<open>
  \<^verbatim>\<open>k in data\<close>: key membership for a dict, element membership for a list, substring
  test for a string, and \<^verbatim>\<open>TypeError\<close> for a value that is not a container.
\<close>

fun py_contains :: "string \<Rightarrow> json \<Rightarrow> error + bool" where
  "py_contains k (JObj kvs) = Inr (map_of kvs k \<noteq> None)"
| "py_contains k (JArr xs) = Inr (JStr k \<in> set xs)"
| "py_contains k (JStr s) = Inr (contains_str k s)"
| "py_contains k _ = Inl TypeError"

text \<open>
  \<^verbatim>\<open>data[k]\<close> with a string key: the stored value for a dict (\<^verbatim>\<open>KeyError\<close> when the
  key is missing), \<^verbatim>\<open>TypeError\<close> for every other value (lists and strings take integer
  indices, the rest is not subscriptable).
\<close>

fun py_subscript :: "json \<Rightarrow> string \<Rightarrow> error + json" where
  "py_subscript (JObj kvs) k = (case map_of kvs k of None \<Rightarrow> Inl KeyError | Some v \<Rightarrow> Inr v)"
| "py_subscript _ k = Inl TypeError"

text \<open>\<^verbatim>\<open>data.get(k, d)\<close>: only a dict has the method.\<close>

fun py_get :: "json \<Rightarrow> string \<Rightarrow> json \<Rightarrow> error + json" where
  "py_get (JObj kvs) k d = Inr (case map_of kvs k of None \<Rightarrow> d | Some v \<Rightarrow> v)"
| "py_get _ k d = Inl AttributeError"

text \<open>
  \<^verbatim>\<open>for x in v\<close>: the elements of a list, the one-character strings of a string, the
  keys of a dict; \<^verbatim>\<open>TypeError\<close> for a value that is not iterable.
\<close>

fun py_iter :: "json \<Rightarrow> error + json list" where
  "py_iter (JArr xs) = Inr xs"
| "py_iter (JStr s) = Inr (map (\<lambda>c. JStr [c]) s)"
| "py_iter (JObj kvs) = Inr (map (\<lambda>kv. JStr (fst kv)) kvs)"
| "py_iter _ = Inl TypeError"

section \<open>Paths\<close>

text \<open>\<^verbatim>\<open>p.split('/')\<close>: the pieces between the slashes, empty pieces included.\<close>

fun split_slash :: "string \<Rightarrow> string list" where
  "split_slash [] = [[]]"
| "split_slash (c # cs) =
     (if c = CHR ''/'' then [] # split_slash cs
      else (case split_slash cs of [] \<Rightarrow> [[c]] | x # xs \<Rightarrow> (c # x) # xs))"

text \<open>
  \<^verbatim>\<open>Path(p).name\<close> on a POSIX system: the path is cut at the slashes, empty pieces and
  \<^verbatim>\<open>.\<close> pieces are dropped, and the name is the last piece that is left, or the empty
  string when none is.
\<close>

definition path_parts :: "string \<Rightarrow> string list" where
  "path_parts p = filter (\<lambda>x. x \<noteq> [] \<and> x \<noteq> ''.'') (split_slash p)"

definition path_name :: "string \<Rightarrow> string" where
  "path_name p = (case path_parts p of [] \<Rightarrow> [] | x # xs \<Rightarrow> last (x # xs))"

section \<open>The thumbnail stub\<close>

text \<open>
  \<^verbatim>\<open>generate_thumbnail(file_path)\<close> builds a dict from \<^verbatim>\<open>Path(file_path).name\<close>; it has no
  access to the application state. \<^verbatim>\<open>Path\<close> raises \<^verbatim>\<open>TypeError\<close> for an argument that is
  not a string.
\<close>

fun generate_thumbnail :: "json \<Rightarrow> error + json" where
  "generate_thumbnail (JStr file_path) =
     Inr (JObj [(''thumbnail_url'', JStr (''/thumbnails/'' @ path_name file_path @ ''.thumb'')),
                (''size'', JStr ''100x100'')])"
| "generate_thumbnail _ = Inl TypeError"

section \<open>The file system\<close>

text \<open>
  The code reaches the disk through \<^verbatim>\<open>os.path.join\<close>, \<^verbatim>\<open>os.path.dirname\<close>,
  \<^verbatim>\<open>os.makedirs\<close> and \<^verbatim>\<open>open(path, 'w')\<close>. The string functions follow
  \<^verbatim>\<open>posixpath\<close>.
\<close>

definition join2 :: "string \<Rightarrow> string \<Rightarrow> string" where
  "join2 path b =
     (if startswith ''/'' b then b
      else if path = [] \<or> endswith ''/'' path then path @ b
      else path @ ''/'' @ b)"

definition os_path_join :: "string \<Rightarrow> string list \<Rightarrow> string" where
  "os_path_join a p = foldl join2 a p"

definition rstrip_slash :: "string \<Rightarrow> string" where
  "rstrip_slash s = rev (dropWhile (\<lambda>c. c = CHR ''/'') (rev s))"

text \<open>
  \<^verbatim>\<open>os.path.split\<close>: the path is cut after its last slash; the slashes at the end of
  the head are removed unless the head consists of slashes only.
\<close>

definition os_path_split :: "string \<Rightarrow> string \<times> string" where
  "os_path_split p =
     (let head = rev (dropWhile (\<lambda>c. c \<noteq> CHR ''/'') (rev p));
          tail = rev (takeWhile (\<lambda>c. c \<noteq> CHR ''/'') (rev p))
      in (if head \<noteq> [] \<and> filter (\<lambda>c. c \<noteq> CHR ''/'') head \<noteq> [] then rstrip_slash head
          else head, tail))"

definition os_path_dirname :: "string \<Rightarrow> string" where
  "os_path_dirname p = fst (os_path_split p)"

text \<open>
  The disk is a table from locations to entries. A location is the list of names that
  leads from the root directory to the entry; the root itself is the empty list. The
  process has a working directory, from which relative paths start. There are no symbolic
  links, no permissions and no limits on names or space in this model.
\<close>

datatype entry = File string | Dir

type_synonym location = "string list"

record filesystem =
  entries :: "location \<rightharpoonup> entry"
  cwd :: location

definition has_nul :: "string \<Rightarrow> bool" where
  "has_nul p = (CHR 0x00 \<in> set p)"

definition pieces :: "string \<Rightarrow> string list" where
  "pieces p = filter (\<lambda>x. x \<noteq> []) (split_slash p)"

definition start :: "filesystem \<Rightarrow> string \<Rightarrow> location" where
  "start fs p = (if startswith ''/'' p then [] else cwd fs)"

definition step :: "location \<Rightarrow> string \<Rightarrow> location" where
  "step cur c = (if c = ''.'' then cur else if c = ''..'' then butlast cur else cur @ [c])"

text \<open>
  Name resolution: every piece is looked up in the directory reached so far, which has
  to exist and to be a directory.
\<close>

fun walk :: "(location \<rightharpoonup> entry) \<Rightarrow> location \<Rightarrow> string list \<Rightarrow> error + location" where
  "walk es cur [] = Inr cur"
| "walk es cur (c # cs) =
     (case es cur of
        None \<Rightarrow> Inl FileNotFoundError
      | Some (File x) \<Rightarrow> Inl NotADirectoryError
      | Some Dir \<Rightarrow> walk es (step cur c) cs)"

definition resolve_dir :: "(location \<rightharpoonup> entry) \<Rightarrow> location \<Rightarrow> string list \<Rightarrow> error + location" where
  "resolve_dir es cur cs =
     (case walk es cur cs of
        Inl e \<Rightarrow> Inl e
      | Inr loc \<Rightarrow>
          (case es loc of
             None \<Rightarrow> Inl FileNotFoundError
           | Some (File x) \<Rightarrow> Inl NotADirectoryError
           | Some Dir \<Rightarrow> Inr loc))"

text \<open>\<^verbatim>\<open>os.stat\<close>, and \<^verbatim>\<open>os.path.exists\<close> and \<^verbatim>\<open>os.path.isdir\<close>, which turn its failure into \<^verbatim>\<open>False\<close>.\<close>

definition os_stat :: "filesystem \<Rightarrow> string \<Rightarrow> error + entry" where
  "os_stat fs p =
     (if has_nul p then Inl ValueError
      else if p = [] then Inl FileNotFoundError
      else (case walk (entries fs) (start fs p) (pieces p) of
              Inl e \<Rightarrow> Inl e
            | Inr loc \<Rightarrow>
                (case entries fs loc of
                   None \<Rightarrow> Inl FileNotFoundError
                 | Some Dir \<Rightarrow> Inr Dir
                 | Some (File x) \<Rightarrow>
                     if endswith ''/'' p then Inl NotADirectoryError else Inr (File x))))"

definition os_path_exists :: "filesystem \<Rightarrow> string \<Rightarrow> bool" where
  "os_path_exists fs p = (case os_stat fs p of Inl e \<Rightarrow> False | Inr x \<Rightarrow> True)"

definition os_path_isdir :: "filesystem \<Rightarrow> string \<Rightarrow> bool" where
  "os_path_isdir fs p = (case os_stat fs p of Inr Dir \<Rightarrow> True | _ \<Rightarrow> False)"

text \<open>\<^verbatim>\<open>os.mkdir\<close>: the parent has to be a directory and the name has to be free.\<close>

definition os_mkdir :: "string \<Rightarrow> filesystem \<Rightarrow> error + filesystem" where
  "os_mkdir p fs =
     (if has_nul p then Inl ValueError
      else if p = [] then Inl FileNotFoundError
      else (case pieces p of
              [] \<Rightarrow> Inl FileExistsError
            | x # xs \<Rightarrow>
                (case resolve_dir (entries fs) (start fs p) (butlast (x # xs)) of
                   Inl e \<Rightarrow> Inl e
                 | Inr parent \<Rightarrow>
                     if last (x # xs) = ''.'' \<or> last (x # xs) = ''..'' then Inl FileExistsError
                     else (case entries fs (parent @ [last (x # xs)]) of
                             Some y \<Rightarrow> Inl FileExistsError
                           | None \<Rightarrow>
                               Inr (fs\<lparr>entries := (entries fs)(parent @ [last (x # xs)] \<mapsto> Dir)\<rparr>)))))"

text \<open>
  \<^verbatim>\<open>open(p, 'w')\<close>: creates the file or empties the one that is there, and gives the
  location that is open for writing.
\<close>

definition os_open_w :: "string \<Rightarrow> filesystem \<Rightarrow> error + location \<times> filesystem" where
  "os_open_w p fs =
     (if has_nul p then Inl ValueError
      else if p = [] then Inl FileNotFoundError
      else (case pieces p of
              [] \<Rightarrow> Inl IsADirectoryError
            | x # xs \<Rightarrow>
                (case resolve_dir (entries fs) (start fs p) (butlast (x # xs)) of
                   Inl e \<Rightarrow> Inl e
                 | Inr parent \<Rightarrow>
                     if last (x # xs) = ''.'' \<or> last (x # xs) = ''..'' then Inl IsADirectoryError
                     else (case entries fs (parent @ [last (x # xs)]) of
                             Some Dir \<Rightarrow> Inl IsADirectoryError
                           | Some (File old) \<Rightarrow>
                               if endswith ''/'' p then Inl NotADirectoryError
                               else Inr (parent @ [last (x # xs)],
                                         fs\<lparr>entries := (entries fs)(parent @ [last (x # xs)] \<mapsto> File [])\<rparr>)
                           | None \<Rightarrow>
                               if endswith ''/'' p then Inl IsADirectoryError
                               else Inr (parent @ [last (x # xs)],
                                         fs\<lparr>entries := (entries fs)(parent @ [last (x # xs)] \<mapsto> File [])\<rparr>)))))"

definition write_text :: "location \<Rightarrow> string \<Rightarrow> filesystem \<Rightarrow> filesystem" where
  "write_text loc s fs = fs\<lparr>entries := (entries fs)(loc \<mapsto> File s)\<rparr>"

text \<open>The outcome of a call that changes the state: it returns, or an exception leaves it.\<close>

datatype status = Returned | Raised error

text \<open>
  \<^verbatim>\<open>with open(p, 'w') as f: f.write(content)\<close>. A text file takes a \<^verbatim>\<open>str\<close> only; for
  another value \<^verbatim>\<open>write\<close> raises \<^verbatim>\<open>TypeError\<close> after the file has been opened.
\<close>

definition write_file :: "string \<Rightarrow> json \<Rightarrow> filesystem \<Rightarrow> status \<times> filesystem" where
  "write_file p content fs =
     (case os_open_w p fs of
        Inl e \<Rightarrow> (Raised e, fs)
      | Inr (loc, fs') \<Rightarrow>
          (case content of
             JStr s \<Rightarrow> (Returned, write_text loc s fs')
           | _ \<Rightarrow> (Raised TypeError, fs')))"

text \<open>
  The last step of \<^verbatim>\<open>os.makedirs(name, exist_ok=True)\<close>: \<^verbatim>\<open>mkdir(name)\<close>, whose
  \<^verbatim>\<open>OSError\<close> is dropped when \<open>name\<close> is a directory afterwards. \<^verbatim>\<open>ValueError\<close> is no
  \<^verbatim>\<open>OSError\<close>.
\<close>

definition mkdir_exist_ok :: "string \<Rightarrow> filesystem \<Rightarrow> status \<times> filesystem" where
  "mkdir_exist_ok name fs =
     (case os_mkdir name fs of
        Inr fs' \<Rightarrow> (Returned, fs')
      | Inl e \<Rightarrow>
          if e = ValueError \<or> \<not> os_path_isdir fs name then (Raised e, fs) else (Returned, fs))"

text \<open>
  The head and tail that \<^verbatim>\<open>makedirs\<close> works with: \<^verbatim>\<open>split(name)\<close>, and when the tail
  is empty, the split of the head.
\<close>

definition split_dir :: "string \<Rightarrow> string \<times> string" where
  "split_dir name =
     (if snd (os_path_split name) = [] then os_path_split (fst (os_path_split name))
      else os_path_split name)"

function os_makedirs :: "string \<Rightarrow> filesystem \<Rightarrow> status \<times> filesystem" where
  "os_makedirs name fs =
     (if fst (split_dir name) \<noteq> [] \<and> snd (split_dir name) \<noteq> []
         \<and> \<not> os_path_exists fs (fst (split_dir name))
      then (case os_makedirs (fst (split_dir name)) fs of
              (Raised e, fs') \<Rightarrow>
                if e = FileExistsError
                then (if snd (split_dir name) = ''.'' then (Returned, fs')
                      else mkdir_exist_ok name fs')
                else (Raised e, fs')
            | (Returned, fs') \<Rightarrow>
                if snd (split_dir name) = ''.'' then (Returned, fs')
                else mkdir_exist_ok name fs')
      else mkdir_exist_ok name fs)"
  by pat_completeness auto
termination
proof (relation "measure (\<lambda>(name, fs). length name)")
  show "wf (measure (\<lambda>(name, fs::filesystem). length name))"
    by simp
next
  fix name :: string and fs :: filesystem
  assume "fst (split_dir name) \<noteq> [] \<and> snd (split_dir name) \<noteq> []
          \<and> \<not> os_path_exists fs (fst (split_dir name))"
  then have tail: "0 < length (snd (split_dir name))"
    by simp
  have cut: "length (fst (os_path_split p)) + length (snd (os_path_split p)) \<le> length p"
    for p
  proof -
    let ?P = "\<lambda>c. c \<noteq> CHR ''/''"
    have "length (takeWhile ?P (rev p)) + length (dropWhile ?P (rev p)) = length (rev p)"
      by (metis length_append takeWhile_dropWhile_id)
    moreover have "length (rstrip_slash h) \<le> length h" for h
      using length_dropWhile_le [of "\<lambda>c. c = CHR ''/''" "rev h"]
      by (simp add: rstrip_slash_def)
    from this [of "rev (dropWhile ?P (rev p))"]
    have "length (rstrip_slash (rev (dropWhile ?P (rev p)))) \<le> length (dropWhile ?P (rev p))"
      by simp
    ultimately have "length (rstrip_slash (rev (dropWhile ?P (rev p))))
                       + length (takeWhile ?P (rev p)) \<le> length p"
      and "length (dropWhile ?P (rev p)) + length (takeWhile ?P (rev p)) \<le> length p"
      by simp_all
    then show ?thesis
      by (simp add: os_path_split_def Let_def)
  qed
  have "length (fst (split_dir name)) < length name"
  proof (cases "snd (os_path_split name) = []")
    case True
    then have "split_dir name = os_path_split (fst (os_path_split name))"
      by (simp add: split_dir_def)
    with tail cut [of name] cut [of "fst (os_path_split name)"] show ?thesis
      by (simp del: length_greater_0_conv)
  next
    case False
    then have "split_dir name = os_path_split name"
      by (simp add: split_dir_def)
    with tail cut [of name] show ?thesis
      by (simp del: length_greater_0_conv)
  qed
  then show "((fst (split_dir name), fs), (name, fs)) \<in> measure (\<lambda>(name, fs). length name)"
    by simp
qed

declare os_makedirs.simps [simp del]

section \<open>The application\<close>

text \<open>
  Of \<^verbatim>\<open>ProfessionalChatApp\<close> the model keeps \<^verbatim>\<open>self.messages\<close> (the chat log, a list
  of dicts), the disk below the process, and the frames handed to \<^verbatim>\<open>websocket.send\<close>,
  in the order of the calls and before \<^verbatim>\<open>json.dumps\<close> serialises them. The widgets are
  left out. The peer keeps the connection open for as long as frames are sent, so that
  \<^verbatim>\<open>send\<close> returns; the delays of \<^verbatim>\<open>asyncio.sleep\<close> do not change any value.
\<close>

record app_state =
  messages :: "json list"
  disk :: filesystem
  sent :: "json list"

definition workspace_root :: string where
  "workspace_root = ''./workspace''"

definition add_user_message :: "json \<Rightarrow> app_state \<Rightarrow> app_state" where
  "add_user_message message st =
     st\<lparr>messages := messages st @ [JObj [(''role'', JStr ''user''), (''content'', message)]]\<rparr>"

definition add_bot_message :: "json \<Rightarrow> app_state \<Rightarrow> app_state" where
  "add_bot_message message st =
     st\<lparr>messages := messages st @ [JObj [(''role'', JStr ''assistant''), (''content'', message)]]\<rparr>"

definition add_system_message :: "json \<Rightarrow> app_state \<Rightarrow> app_state" where
  "add_system_message message st =
     st\<lparr>messages := messages st @ [JObj [(''role'', JStr ''system''), (''content'', message)]]\<rparr>"

text \<open>\<^verbatim>\<open>send_message\<close> reads the entry field, whose text is the argument here.\<close>

definition send_message :: "string \<Rightarrow> app_state \<Rightarrow> app_state" where
  "send_message user_input st =
     (if user_input \<noteq> [] then add_user_message (JStr user_input) st else st)"

definition responses :: "string list" where
  "responses =
     [''I can help you with that. What specific task are we working on?'',
      ''Based on your project structure, here's what I recommend...'',
      ''Let me analyze your code and provide better suggestions.'',
      ''Here's how you might implement this feature:'']"

definition update_with_bot_response :: "string \<Rightarrow> app_state \<Rightarrow> app_state" where
  "update_with_bot_response user_message st = add_bot_message (JStr (hd responses)) st"

definition ws_send :: "json \<Rightarrow> app_state \<Rightarrow> app_state" where
  "ws_send frame st = st\<lparr>sent := sent st @ [frame]\<rparr>"

definition response_chunks :: "string list" where
  "response_chunks =
     [''Processing your request...'',
      ''\<newline>Analyzing code structure...'',
      ''\<newline>Generating solution...'',
      ''\<newline>Here's the complete implementation:\<newline>\<newline>```python\<newline>'',
      ''def example_function():\<newline>    # Your code here\<newline>    pass\<newline>\<newline># Additional code\<newline>print('Hello World')\<newline>```'']"

text \<open>The \<^verbatim>\<open>for\<close> loop over the chunks, then the end indicator.\<close>

fun send_chunks :: "string list \<Rightarrow> app_state \<Rightarrow> app_state" where
  "send_chunks [] st = st"
| "send_chunks (chunk # rest) st =
     send_chunks rest
       (ws_send (JObj [(''type'', JStr ''response_chunk''), (''content'', JStr chunk)]) st)"

definition stream_bot_response :: "json \<Rightarrow> app_state \<Rightarrow> app_state" where
  "stream_bot_response user_message st =
     ws_send (JObj [(''type'', JStr ''response_end''), (''content'', JStr [])])
       (send_chunks response_chunks st)"

definition save_uploaded_file :: "json \<Rightarrow> filesystem \<Rightarrow> status \<times> filesystem" where
  "save_uploaded_file file_data fs =
     (case py_get file_data ''name'' (JStr ''unknown'') of
        Inl e \<Rightarrow> (Raised e, fs)
      | Inr filename \<Rightarrow>
     (case py_get file_data ''content'' (JStr []) of
        Inl e \<Rightarrow> (Raised e, fs)
      | Inr content \<Rightarrow>
     (case py_get file_data ''type'' (JStr ''text/plain'') of
        Inl e \<Rightarrow> (Raised e, fs)
      | Inr (JStr file_type) \<Rightarrow>
          (case filename of
             JStr name \<Rightarrow>
               (case os_makedirs
                       (os_path_dirname
                          (if startswith ''image'' file_type
                           then os_path_join workspace_root [''media'', name]
                           else os_path_join workspace_root [name])) fs of
                  (Raised e, fs') \<Rightarrow> (Raised e, fs')
                | (Returned, fs') \<Rightarrow>
                    write_file
                      (if startswith ''image'' file_type
                       then os_path_join workspace_root [''media'', name]
                       else os_path_join workspace_root [name]) content fs')
           | _ \<Rightarrow> (Raised TypeError, fs))
      | Inr _ \<Rightarrow> (Raised AttributeError, fs))))"

definition handle_file_upload :: "json \<Rightarrow> filesystem \<Rightarrow> status \<times> filesystem" where
  "handle_file_upload data fs =
     (case py_get data ''content'' (JStr []) of
        Inl e \<Rightarrow> (Raised e, fs)
      | Inr file_content \<Rightarrow>
     (case py_get data ''name'' (JStr ''file'') of
        Inl e \<Rightarrow> (Raised e, fs)
      | Inr (JStr file_name) \<Rightarrow>
          write_file (os_path_join workspace_root [file_name]) file_content fs
      | Inr _ \<Rightarrow> (Raised TypeError, fs)))"

section \<open>The message loop\<close>

text \<open>\<^verbatim>\<open>'type' in data and data['type'] == t\<close>, with the short cut of \<^verbatim>\<open>and\<close>.\<close>

definition type_is :: "json \<Rightarrow> string \<Rightarrow> error + bool" where
  "type_is data t =
     (case py_contains ''type'' data of
        Inl e \<Rightarrow> Inl e
      | Inr False \<Rightarrow> Inr False
      | Inr True \<Rightarrow>
          (case py_subscript data ''type'' of
             Inl e \<Rightarrow> Inl e
           | Inr v \<Rightarrow> Inr (v = JStr t)))"

text \<open>The loop over \<^verbatim>\<open>data['media']\<close>: an exception ends it and keeps what was written.\<close>

fun save_media :: "json list \<Rightarrow> filesystem \<Rightarrow> status \<times> filesystem" where
  "save_media [] fs = (Returned, fs)"
| "save_media (file_data # rest) fs =
     (case save_uploaded_file file_data fs of
        (Raised e, fs') \<Rightarrow> (Raised e, fs')
      | (Returned, fs') \<Rightarrow> save_media rest fs')"

text \<open>The \<^verbatim>\<open>if 'media' in data\<close> block of the \<^verbatim>\<open>message\<close> branch.\<close>

definition process_media :: "json \<Rightarrow> filesystem \<Rightarrow> status \<times> filesystem" where
  "process_media data fs =
     (case py_contains ''media'' data of
        Inl e \<Rightarrow> (Raised e, fs)
      | Inr False \<Rightarrow> (Returned, fs)
      | Inr True \<Rightarrow>
          (case py_subscript data ''media'' of
             Inl e \<Rightarrow> (Raised e, fs)
           | Inr media \<Rightarrow>
               (case py_iter media of
                  Inl e \<Rightarrow> (Raised e, fs)
                | Inr items \<Rightarrow> save_media items fs)))"

definition message_branch :: "json \<Rightarrow> app_state \<Rightarrow> status \<times> app_state" where
  "message_branch data st =
     (case py_get data ''content'' (JStr []) of
        Inl e \<Rightarrow> (Raised e, st)
      | Inr user_message \<Rightarrow>
          (case process_media data (disk (add_user_message user_message st)) of
             (Raised e, fs') \<Rightarrow> (Raised e, (add_user_message user_message st)\<lparr>disk := fs'\<rparr>)
           | (Returned, fs') \<Rightarrow>
               (Returned,
                stream_bot_response user_message
                  ((add_user_message user_message st)\<lparr>disk := fs'\<rparr>))))"

definition file_upload_branch :: "json \<Rightarrow> app_state \<Rightarrow> status \<times> app_state" where
  "file_upload_branch data st =
     (case handle_file_upload data (disk st) of (r, fs') \<Rightarrow> (r, st\<lparr>disk := fs'\<rparr>))"

definition thumbnail_branch :: "json \<Rightarrow> app_state \<Rightarrow> status \<times> app_state" where
  "thumbnail_branch data st =
     (case py_get data ''filePath'' (JStr []) of
        Inl e \<Rightarrow> (Raised e, st)
      | Inr file_path \<Rightarrow>
          (case generate_thumbnail file_path of
             Inl e \<Rightarrow> (Raised e, st)
           | Inr thumbnail_data \<Rightarrow>
               (Returned,
                ws_send (JObj [(''type'', JStr ''thumbnail_response''),
                               (''data'', thumbnail_data),
                               (''filePath'', file_path)]) st)))"

text \<open>The body of the loop in \<^verbatim>\<open>handle_client\<close>, after \<^verbatim>\<open>json.loads\<close>.\<close>

definition handle_frame :: "json \<Rightarrow> app_state \<Rightarrow> status \<times> app_state" where
  "handle_frame data st =
     (case type_is data ''message'' of
        Inl e \<Rightarrow> (Raised e, st)
      | Inr True \<Rightarrow> message_branch data st
      | Inr False \<Rightarrow>
     (case type_is data ''file_upload'' of
        Inl e \<Rightarrow> (Raised e, st)
      | Inr True \<Rightarrow> file_upload_branch data st
      | Inr False \<Rightarrow>
     (case type_is data ''thumbnail_request'' of
        Inl e \<Rightarrow> (Raised e, st)
      | Inr True \<Rightarrow> thumbnail_branch data st
      | Inr False \<Rightarrow> (Returned, st))))"

text \<open>
  A text frame is either the text of a JSON value or something that \<^verbatim>\<open>json.loads\<close>
  rejects.
\<close>

definition json_loads :: "json option \<Rightarrow> error + json" where
  "json_loads message = (case message of None \<Rightarrow> Inl JSONDecodeError | Some data \<Rightarrow> Inr data)"

text \<open>
  \<^verbatim>\<open>handle_client\<close> on the frames that arrive until the connection is closed. Only
  \<^verbatim>\<open>ConnectionClosed\<close> is caught; any other exception leaves the handler, and the frames
  behind it are not read.
\<close>

fun handle_client :: "json option list \<Rightarrow> app_state \<Rightarrow> status \<times> app_state" where
  "handle_client [] st = (Returned, st)"
| "handle_client (message # rest) st =
     (case json_loads message of
        Inl e \<Rightarrow> (Raised e, st)
      | Inr data \<Rightarrow>
          (case handle_frame data st of
             (Raised e, st') \<Rightarrow> (Raised e, st')
           | (Returned, st') \<Rightarrow> handle_client rest st'))"

section \<open>A starting state\<close>

text \<open>
  A disk that holds the root and the working directory of the process and nothing else
  (the workspace directory has not been created yet), and the application as
  \<^verbatim>\<open>__init__\<close> leaves it: an empty chat log, nothing sent.
\<close>

definition fresh_disk :: filesystem where
  "fresh_disk = \<lparr>entries = [[] \<mapsto> Dir, [''srv''] \<mapsto> Dir], cwd = [''srv'']\<rparr>"

definition init_state :: app_state where
  "init_state = \<lparr>messages = [], disk = fresh_disk, sent = []\<rparr>"

text \<open>
  The frames that one call of \<^verbatim>\<open>stream_bot_response\<close> hands to \<^verbatim>\<open>send\<close>, written out.
\<close>

definition scripted_reply :: "json list" where
  "scripted_reply =
     [JObj [(''type'', JStr ''response_chunk''), (''content'', JStr ''Processing your request...'')],
      JObj [(''type'', JStr ''response_chunk''), (''content'', JStr ''\<newline>Analyzing code structure...'')],
      JObj [(''type'', JStr ''response_chunk''), (''content'', JStr ''\<newline>Generating solution...'')],
      JObj [(''type'', JStr ''response_chunk''),
            (''content'', JStr ''\<newline>Here's the complete implementation:\<newline>\<newline>```python\<newline>'')],
      JObj [(''type'', JStr ''response_chunk''),
            (''content'', JStr ''def example_function():\<newline>    # Your code here\<newline>    pass\<newline>\<newline># Additional code\<newline>print('Hello World')\<newline>```'')],
      JObj [(''type'', JStr ''response_end''), (''content'', JStr [])]]"

section \<open>Dispatch and streaming lemmas\<close>

lemma type_is_object: "type_is (JObj kvs) t = Inr (map_of kvs ''type'' = Some (JStr t))"
  by (cases "map_of kvs ''type''") (simp_all add: type_is_def)

lemma type_is_not_object:
  "(\<forall>kvs. data \<noteq> JObj kvs) \<Longrightarrow> type_is data t = Inr False \<or> type_is data t = Inl TypeError"
  by (cases data) (simp_all add: type_is_def split: bool.splits)

lemma type_is_same:
  "(\<forall>kvs. data \<noteq> JObj kvs) \<Longrightarrow> type_is data t = type_is data t'"
  by (cases data) (simp_all add: type_is_def split: bool.splits)

lemma handle_frame_not_object:
  assumes "\<forall>kvs. data \<noteq> JObj kvs"
  shows "snd (handle_frame data st) = st"
  using type_is_not_object [OF assms, of "''message''"]
    type_is_same [OF assms, of "''file_upload''" "''message''"]
    type_is_same [OF assms, of "''thumbnail_request''" "''message''"]
  by (auto simp: handle_frame_def)

lemma send_chunks_eq:
  "send_chunks cs st =
     st\<lparr>sent := sent st @
       map (\<lambda>c. JObj [(''type'', JStr ''response_chunk''), (''content'', JStr c)]) cs\<rparr>"
  by (induction cs arbitrary: st) (simp_all add: ws_send_def)

lemma stream_bot_response_eq:
  "stream_bot_response m st =
     st\<lparr>sent := sent st @
       map (\<lambda>c. JObj [(''type'', JStr ''response_chunk''), (''content'', JStr c)]) response_chunks @
       [JObj [(''type'', JStr ''response_end''), (''content'', JStr [])]]\<rparr>"
  by (simp add: stream_bot_response_def send_chunks_eq ws_send_def)

lemma path_name_foo: "path_name ''/tmp/foo.jpg'' = ''foo.jpg''"
  by (simp add: path_name_def path_parts_def)

lemma path_name_empty: "path_name [] = []"
  by (simp add: path_name_def path_parts_def)

section \<open>The thumbnail stub\<close>

text \<open>
  C3 (amended). For the path \<^verbatim>\<open>/tmp/foo.jpg\<close> the stub returns the dict with the keys
  \<^verbatim>\<open>thumbnail_url\<close> and \<^verbatim>\<open>size\<close>, the values \<^verbatim>\<open>/thumbnails/foo.jpg.thumb\<close> and
  \<^verbatim>\<open>100x100\<close>; two requests for the path, from any state, are answered with two equal
  \<^verbatim>\<open>thumbnail_response\<close> frames that carry this dict.
\<close>

theorem thumbnail_foo_jpg:
  "generate_thumbnail (JStr ''/tmp/foo.jpg'') =
     Inr (JObj [(''thumbnail_url'', JStr ''/thumbnails/foo.jpg.thumb''), (''size'', JStr ''100x100'')])
   \<and> handle_client
        [Some (JObj [(''type'', JStr ''thumbnail_request''), (''filePath'', JStr ''/tmp/foo.jpg'')]),
         Some (JObj [(''type'', JStr ''thumbnail_request''), (''filePath'', JStr ''/tmp/foo.jpg'')])] st =
       (Returned,
        st\<lparr>sent := sent st @
          [JObj [(''type'', JStr ''thumbnail_response''),
                 (''data'', JObj [(''thumbnail_url'', JStr ''/thumbnails/foo.jpg.thumb''),
                                  (''size'', JStr ''100x100'')]),
                 (''filePath'', JStr ''/tmp/foo.jpg'')],
           JObj [(''type'', JStr ''thumbnail_response''),
                 (''data'', JObj [(''thumbnail_url'', JStr ''/thumbnails/foo.jpg.thumb''),
                                  (''size'', JStr ''100x100'')]),
                 (''filePath'', JStr ''/tmp/foo.jpg'')]]\<rparr>)"
  by (simp add: path_name_foo json_loads_def handle_frame_def type_is_object thumbnail_branch_def
      ws_send_def)

text \<open>
  C3 as it is written names the first field \<^verbatim>\<open>thumbnailUrl\<close>; the dict that the stub
  returns for \<^verbatim>\<open>/tmp/foo.jpg\<close> is not the dict with that key.
\<close>

theorem thumbnail_foo_jpg_field_name:
  "generate_thumbnail (JStr ''/tmp/foo.jpg'') \<noteq>
     Inr (JObj [(''thumbnailUrl'', JStr ''/thumbnails/foo.jpg.thumb''), (''size'', JStr ''100x100'')])"
  by (simp add: path_name_foo)

text \<open>
  C6. The stub is a function of its argument alone (it neither reads nor returns the
  application state), two paths with the same \<^verbatim>\<open>Path(...).name\<close> give the same dict, and
  answering a \<^verbatim>\<open>thumbnail_request\<close> leaves the chat log and the disk as they were.
\<close>

theorem thumbnail_base_name_only:
  "path_name p = path_name q \<Longrightarrow>
     generate_thumbnail (JStr p) = generate_thumbnail (JStr q)
     \<and> messages (snd (thumbnail_branch data st)) = messages st
     \<and> disk (snd (thumbnail_branch data st)) = disk st"
  by (auto simp: thumbnail_branch_def ws_send_def split: sum.splits)

theorem thumbnail_base_name_only_witness:
  "path_name ''/tmp/foo.jpg'' = path_name ''other/dir/foo.jpg''
   \<and> generate_thumbnail (JStr ''/tmp/foo.jpg'') = generate_thumbnail (JStr ''other/dir/foo.jpg'')
   \<and> generate_thumbnail (JStr ''other/dir/foo.jpg'') =
       Inr (JObj [(''thumbnail_url'', JStr ''/thumbnails/foo.jpg.thumb''), (''size'', JStr ''100x100'')])"
proof -
  have same: "path_name ''/tmp/foo.jpg'' = path_name ''other/dir/foo.jpg''"
    by (simp add: path_name_def path_parts_def)
  from thumbnail_base_name_only [OF same, of JNull init_state] same show ?thesis
    by (simp add: path_name_foo)
qed

text \<open>
  C10. A \<^verbatim>\<open>thumbnail_request\<close> frame without the \<^verbatim>\<open>filePath\<close> field is answered with
  exactly one \<^verbatim>\<open>thumbnail_response\<close> frame, whose \<^verbatim>\<open>filePath\<close> is the empty string and
  whose data has the URL \<^verbatim>\<open>/thumbnails/.thumb\<close> and the size \<^verbatim>\<open>100x100\<close>; nothing else
  in the state changes and no exception is raised.
\<close>

theorem thumbnail_request_without_path:
  "map_of kvs ''type'' = Some (JStr ''thumbnail_request'') \<Longrightarrow> map_of kvs ''filePath'' = None \<Longrightarrow>
   handle_frame (JObj kvs) st =
     (Returned,
      st\<lparr>sent := sent st @
        [JObj [(''type'', JStr ''thumbnail_response''),
               (''data'', JObj [(''thumbnail_url'', JStr ''/thumbnails/.thumb''),
                                (''size'', JStr ''100x100'')]),
               (''filePath'', JStr [])]]\<rparr>)"
  by (simp add: handle_frame_def type_is_object thumbnail_branch_def ws_send_def path_name_empty)

theorem thumbnail_request_without_path_witness:
  "handle_frame (JObj [(''type'', JStr ''thumbnail_request'')]) init_state =
     (Returned,
      init_state\<lparr>sent :=
        [JObj [(''type'', JStr ''thumbnail_response''),
               (''data'', JObj [(''thumbnail_url'', JStr ''/thumbnails/.thumb''),
                                (''size'', JStr ''100x100'')]),
               (''filePath'', JStr [])]]\<rparr>)"
  using thumbnail_request_without_path [of "[(''type'', JStr ''thumbnail_request'')]" init_state]
  by (simp add: init_state_def)

section \<open>Frames of an unknown type\<close>

text \<open>
  C5. A frame whose \<^verbatim>\<open>type\<close> is missing or is none of \<^verbatim>\<open>message\<close>, \<^verbatim>\<open>file_upload\<close>
  and \<^verbatim>\<open>thumbnail_request\<close> leaves the whole state as it was: no frame is sent, no file
  is written and nothing is appended to the chat log. When the frame is a JSON object the
  handler also returns normally, so that the loop goes on with the next frame.
\<close>

theorem unknown_type_ignored:
  assumes "py_subscript data ''type'' \<notin>
             {Inr (JStr ''message''), Inr (JStr ''file_upload''), Inr (JStr ''thumbnail_request'')}"
  shows "snd (handle_frame data st) = st
         \<and> (\<forall>kvs. data = JObj kvs \<longrightarrow> handle_frame data st = (Returned, st))"
proof (cases "\<exists>kvs. data = JObj kvs")
  case True
  then obtain kvs where obj: "data = JObj kvs" ..
  with assms have "map_of kvs ''type'' \<noteq> Some (JStr ''message'')"
    and "map_of kvs ''type'' \<noteq> Some (JStr ''file_upload'')"
    and "map_of kvs ''type'' \<noteq> Some (JStr ''thumbnail_request'')"
    by (auto split: option.splits)
  then have "handle_frame (JObj kvs) st = (Returned, st)"
    by (simp add: handle_frame_def type_is_object)
  with obj show ?thesis by simp
next
  case False
  then show ?thesis using handle_frame_not_object [of data st] by simp
qed

theorem unknown_type_ignored_witness:
  "handle_frame (JObj [(''type'', JStr ''ping''), (''content'', JStr ''hello'')]) init_state
     = (Returned, init_state)
   \<and> handle_frame (JObj [(''content'', JStr ''hello'')]) init_state = (Returned, init_state)
   \<and> snd (handle_frame (JArr [JStr ''type'']) init_state) = init_state"
  using unknown_type_ignored [of "JObj [(''type'', JStr ''ping''), (''content'', JStr ''hello'')]" init_state]
    unknown_type_ignored [of "JObj [(''content'', JStr ''hello'')]" init_state]
    unknown_type_ignored [of "JArr [JStr ''type'']" init_state]
  by simp

section \<open>The chat log\<close>

lemma message_branch_messages:
  "messages (snd (message_branch data st)) = messages st
   \<or> (\<exists>m. messages (snd (message_branch data st)) = messages (add_user_message m st))"
  by (auto simp: message_branch_def stream_bot_response_eq add_user_message_def
      split: sum.splits prod.splits status.splits)

lemma handle_frame_messages:
  "prefix (messages st) (messages (snd (handle_frame data st)))"
proof -
  have "prefix (messages st) (messages (snd (message_branch data st)))"
    using message_branch_messages [of data st] by (auto simp: add_user_message_def)
  moreover have "messages (snd (file_upload_branch data st)) = messages st"
    by (simp add: file_upload_branch_def split: prod.splits)
  moreover have "messages (snd (thumbnail_branch data st)) = messages st"
    by (auto simp: thumbnail_branch_def ws_send_def split: sum.splits)
  ultimately show ?thesis
    by (auto simp: handle_frame_def split: sum.splits bool.splits)
qed

lemma handle_client_messages:
  "prefix (messages st) (messages (snd (handle_client frames st)))"
proof (induction frames arbitrary: st)
  case Nil
  show ?case by simp
next
  case (Cons message rest)
  show ?case
  proof (cases message)
    case None
    then show ?thesis by (simp add: json_loads_def)
  next
    case (Some data)
    obtain r st' where step: "handle_frame data st = (r, st')"
      by (cases "handle_frame data st")
    have first: "prefix (messages st) (messages st')"
      using handle_frame_messages [of st data] step by simp
    show ?thesis
    proof (cases r)
      case Returned
      with Some step have "handle_client (message # rest) st = handle_client rest st'"
        by (simp add: json_loads_def)
      with first Cons.IH [of st'] show ?thesis
        by (metis prefix_order.order_trans)
    next
      case (Raised e)
      with Some step first show ?thesis by (simp add: json_loads_def)
    qed
  qed
qed

text \<open>
  C7. Each of \<^verbatim>\<open>add_user_message\<close>, \<^verbatim>\<open>add_bot_message\<close> and \<^verbatim>\<open>add_system_message\<close>
  puts exactly one entry with the role \<^verbatim>\<open>user\<close>, \<^verbatim>\<open>assistant\<close> or \<^verbatim>\<open>system\<close> and the
  given content at the end of the chat log, and every operation that touches the log
  (sending from the entry field, the simulated answer, the handler on any sequence of
  frames, with or without an exception) keeps the log it found as the beginning of the
  log it leaves: entries are never changed, removed or reordered.
\<close>

theorem chat_log_append_only:
  "messages (add_user_message m st) =
     messages st @ [JObj [(''role'', JStr ''user''), (''content'', m)]]
   \<and> messages (add_bot_message m st) =
     messages st @ [JObj [(''role'', JStr ''assistant''), (''content'', m)]]
   \<and> messages (add_system_message m st) =
     messages st @ [JObj [(''role'', JStr ''system''), (''content'', m)]]
   \<and> prefix (messages st) (messages (send_message user_input st))
   \<and> prefix (messages st) (messages (update_with_bot_response user_message st))
   \<and> prefix (messages st) (messages (snd (handle_client frames st)))"
  using handle_client_messages [of st frames]
  by (simp add: add_user_message_def add_bot_message_def add_system_message_def
      send_message_def update_with_bot_response_def)

section \<open>The scripted answer\<close>

lemma stream_bot_response_scripted:
  "stream_bot_response m st = st\<lparr>sent := sent st @ scripted_reply\<rparr>"
  by (simp add: stream_bot_response_eq response_chunks_def scripted_reply_def)

lemma process_media_absent:
  "map_of kvs ''media'' = None \<Longrightarrow> process_media (JObj kvs) fs = (Returned, fs)"
  by (simp add: process_media_def)

lemma message_frame_returned:
  assumes "map_of kvs ''type'' = Some (JStr ''message'')"
    and "process_media (JObj kvs) (disk st) = (Returned, fs')"
  shows "handle_frame (JObj kvs) st =
           (Returned,
            st\<lparr>messages := messages st @
                  [JObj [(''role'', JStr ''user''),
                         (''content'', case map_of kvs ''content'' of None \<Rightarrow> JStr [] | Some v \<Rightarrow> v)]],
               disk := fs',
               sent := sent st @ scripted_reply\<rparr>)"
  using assms
  by (simp add: handle_frame_def type_is_object message_branch_def add_user_message_def
      stream_bot_response_scripted)

lemma message_frame_raised:
  assumes "map_of kvs ''type'' = Some (JStr ''message'')"
    and "process_media (JObj kvs) (disk st) = (Raised e, fs')"
  shows "handle_frame (JObj kvs) st =
           (Raised e,
            st\<lparr>messages := messages st @
                  [JObj [(''role'', JStr ''user''),
                         (''content'', case map_of kvs ''content'' of None \<Rightarrow> JStr [] | Some v \<Rightarrow> v)]],
               disk := fs'\<rparr>)"
  using assms
  by (simp add: handle_frame_def type_is_object message_branch_def add_user_message_def)

text \<open>
  C1 (amended). A \<^verbatim>\<open>message\<close> frame whose \<^verbatim>\<open>media\<close> field is absent, or whose media
  items are all saved without an exception, makes the handler send exactly the five
  \<^verbatim>\<open>response_chunk\<close> frames of the script, in their order, and then one
  \<^verbatim>\<open>response_end\<close> frame with empty content. The frames do not depend on the content
  text, on the other fields or on the state.
\<close>

theorem message_scripted_response:
  assumes "map_of kvs ''type'' = Some (JStr ''message'')"
    and "map_of kvs ''media'' = None \<or> fst (process_media (JObj kvs) (disk st)) = Returned"
  shows "fst (handle_frame (JObj kvs) st) = Returned
         \<and> sent (snd (handle_frame (JObj kvs) st)) = sent st @
     [JObj [(''type'', JStr ''response_chunk''), (''content'', JStr ''Processing your request...'')],
      JObj [(''type'', JStr ''response_chunk''), (''content'', JStr ''\<newline>Analyzing code structure...'')],
      JObj [(''type'', JStr ''response_chunk''), (''content'', JStr ''\<newline>Generating solution...'')],
      JObj [(''type'', JStr ''response_chunk''),
            (''content'', JStr ''\<newline>Here's the complete implementation:\<newline>\<newline>```python\<newline>'')],
      JObj [(''type'', JStr ''response_chunk''),
            (''content'', JStr ''def example_function():\<newline>    # Your code here\<newline>    pass\<newline>\<newline># Additional code\<newline>print('Hello World')\<newline>```'')],
      JObj [(''type'', JStr ''response_end''), (''content'', JStr [])]]"
proof -
  from assms(2) have "fst (process_media (JObj kvs) (disk st)) = Returned"
    by (auto simp: process_media_absent)
  then obtain fs' where "process_media (JObj kvs) (disk st) = (Returned, fs')"
    by (cases "process_media (JObj kvs) (disk st)") simp
  from message_frame_returned [OF assms(1) this] show ?thesis
    by (simp add: scripted_reply_def)
qed

theorem message_scripted_response_witness:
  "sent (snd (handle_frame (JObj [(''type'', JStr ''message''), (''content'', JStr ''hello'')]) init_state))
     = scripted_reply
   \<and> sent (snd (handle_frame (JObj [(''content'', JStr ''write a parser''), (''type'', JStr ''message''),
              (''media'', JArr [JObj [(''name'', JStr ''a.txt''), (''content'', JStr ''hi''),
                                      (''type'', JStr ''text/plain'')]])]) init_state))
     = scripted_reply"
proof -
  have "fst (process_media (JObj [(''content'', JStr ''write a parser''), (''type'', JStr ''message''),
              (''media'', JArr [JObj [(''name'', JStr ''a.txt''), (''content'', JStr ''hi''),
                                      (''type'', JStr ''text/plain'')]])]) (disk init_state)) = Returned"
    by code_simp
  from message_scripted_response [of "[(''type'', JStr ''message''), (''content'', JStr ''hello'')]" init_state]
    message_scripted_response [of "[(''content'', JStr ''write a parser''), (''type'', JStr ''message''),
              (''media'', JArr [JObj [(''name'', JStr ''a.txt''), (''content'', JStr ''hi''),
                                      (''type'', JStr ''text/plain'')]])]" init_state] this
  show ?thesis
    by (simp add: scripted_reply_def init_state_def)
qed

text \<open>
  C1 as it is written speaks of every \<^verbatim>\<open>message\<close> frame. The media items are saved
  before the answer is streamed, and an exception there leaves the handler: for a media
  item with the empty name the path is \<^verbatim>\<open>./workspace/\<close>, \<^verbatim>\<open>open\<close> raises
  \<^verbatim>\<open>IsADirectoryError\<close>, and no frame is sent.
\<close>

theorem message_with_unnamed_media_no_response:
  "fst (handle_frame (JObj [(''type'', JStr ''message''), (''content'', JStr ''hello''),
          (''media'', JArr [JObj [(''name'', JStr []), (''content'', JStr ''x''),
                                  (''type'', JStr ''text/plain'')]])]) init_state)
     = Raised IsADirectoryError
   \<and> sent (snd (handle_frame (JObj [(''type'', JStr ''message''), (''content'', JStr ''hello''),
          (''media'', JArr [JObj [(''name'', JStr []), (''content'', JStr ''x''),
                                  (''type'', JStr ''text/plain'')]])]) init_state)) = []"
  by code_simp

text \<open>
  C9 (amended). A \<^verbatim>\<open>message\<close> frame without the \<^verbatim>\<open>content\<close> field always appends the
  user entry with the empty string to the chat log; when its \<^verbatim>\<open>media\<close> field is absent,
  or its media items are all saved without an exception, the handler returns normally and
  sends the full scripted answer.
\<close>

theorem message_without_content:
  assumes "map_of kvs ''type'' = Some (JStr ''message'')"
    and "map_of kvs ''content'' = None"
  shows "messages (snd (handle_frame (JObj kvs) st)) =
           messages st @ [JObj [(''role'', JStr ''user''), (''content'', JStr [])]]
         \<and> (map_of kvs ''media'' = None \<or> fst (process_media (JObj kvs) (disk st)) = Returned \<longrightarrow>
              fst (handle_frame (JObj kvs) st) = Returned
              \<and> sent (snd (handle_frame (JObj kvs) st)) = sent st @ scripted_reply)"
proof (cases "process_media (JObj kvs) (disk st)")
  case (Pair r fs')
  show ?thesis
  proof (cases r)
    case Returned
    with Pair message_frame_returned [OF assms(1), of st fs'] assms(2) show ?thesis
      by simp
  next
    case (Raised e)
    with Pair process_media_absent [of kvs "disk st"] have "map_of kvs ''media'' \<noteq> None"
      by auto
    with Raised Pair message_frame_raised [OF assms(1), of st e fs'] assms(2) show ?thesis
      by simp
  qed
qed

theorem message_without_content_witness:
  "messages (snd (handle_frame (JObj [(''type'', JStr ''message'')]) init_state)) =
     [JObj [(''role'', JStr ''user''), (''content'', JStr [])]]
   \<and> fst (handle_frame (JObj [(''type'', JStr ''message'')]) init_state) = Returned
   \<and> sent (snd (handle_frame (JObj [(''type'', JStr ''message'')]) init_state)) = scripted_reply"
  using message_without_content [of "[(''type'', JStr ''message'')]" init_state]
  by (simp add: init_state_def)

text \<open>
  C9 as it is written promises the scripted answer for every \<^verbatim>\<open>message\<close> frame without
  \<^verbatim>\<open>content\<close>. With \<^verbatim>\<open>media\<close> set to the number 5 the user entry is appended, the
  \<^verbatim>\<open>for\<close> loop raises \<^verbatim>\<open>TypeError\<close>, and no frame is sent.
\<close>

theorem message_without_content_bad_media:
  "fst (handle_frame (JObj [(''type'', JStr ''message''), (''media'', JNum 5)]) init_state)
     = Raised TypeError
   \<and> sent (snd (handle_frame (JObj [(''type'', JStr ''message''), (''media'', JNum 5)]) init_state)) = []
   \<and> messages (snd (handle_frame (JObj [(''type'', JStr ''message''), (''media'', JNum 5)]) init_state))
     = [JObj [(''role'', JStr ''user''), (''content'', JStr [])]]"
  by code_simp

text \<open>
  C8 (amended). Two \<^verbatim>\<open>message\<close> frames that are handled one after the other, and whose
  media items are all saved without an exception, are each answered with the full script:
  the first call sends the script, and the second call adds the same script again, whatever
  the first frame was and whatever it left in the chat log.
\<close>

theorem two_messages_in_sequence:
  assumes "map_of kvs1 ''type'' = Some (JStr ''message'')"
    and "map_of kvs2 ''type'' = Some (JStr ''message'')"
    and "fst (process_media (JObj kvs1) (disk st)) = Returned"
    and "fst (process_media (JObj kvs2) (snd (process_media (JObj kvs1) (disk st)))) = Returned"
  shows "fst (handle_client [Some (JObj kvs1), Some (JObj kvs2)] st) = Returned
         \<and> sent (snd (handle_frame (JObj kvs1) st)) = sent st @ scripted_reply
         \<and> sent (snd (handle_client [Some (JObj kvs1), Some (JObj kvs2)] st)) =
             sent (snd (handle_frame (JObj kvs1) st)) @ scripted_reply"
proof -
  obtain fs1 where m1: "process_media (JObj kvs1) (disk st) = (Returned, fs1)"
    using assms(3) by (cases "process_media (JObj kvs1) (disk st)") simp
  obtain fs2 where m2: "process_media (JObj kvs2) fs1 = (Returned, fs2)"
    using assms(4) m1 by (cases "process_media (JObj kvs2) fs1") simp
  let ?st1 = "st\<lparr>messages := messages st @
                  [JObj [(''role'', JStr ''user''),
                         (''content'', case map_of kvs1 ''content'' of None \<Rightarrow> JStr [] | Some v \<Rightarrow> v)]],
               disk := fs1,
               sent := sent st @ scripted_reply\<rparr>"
  have first: "handle_frame (JObj kvs1) st = (Returned, ?st1)"
    by (rule message_frame_returned [OF assms(1) m1])
  have "process_media (JObj kvs2) (disk ?st1) = (Returned, fs2)"
    using m2 by simp
  from message_frame_returned [OF assms(2) this] first show ?thesis
    by (simp add: json_loads_def)
qed

theorem two_messages_in_sequence_witness:
  "sent (snd (handle_client [Some (JObj [(''type'', JStr ''message''), (''content'', JStr ''one'')]),
                             Some (JObj [(''type'', JStr ''message''), (''content'', JStr ''two'')])]
              init_state)) = scripted_reply @ scripted_reply"
proof -
  have "fst (process_media (JObj [(''type'', JStr ''message''), (''content'', JStr ''one'')])
          (disk init_state)) = Returned"
    by (simp add: process_media_absent)
  moreover have "fst (process_media (JObj [(''type'', JStr ''message''), (''content'', JStr ''two'')])
          (snd (process_media (JObj [(''type'', JStr ''message''), (''content'', JStr ''one'')])
             (disk init_state)))) = Returned"
    by (simp add: process_media_absent)
  ultimately show ?thesis
    using two_messages_in_sequence [of "[(''type'', JStr ''message''), (''content'', JStr ''one'')]"
        "[(''type'', JStr ''message''), (''content'', JStr ''two'')]" init_state]
    by (simp add: init_state_def)
qed

text \<open>
  C8 as it is written excludes any influence of an earlier frame on the answer to a later
  one. The disk is such an influence: the second frame below is answered with the script
  when it comes first, and is not answered when the first frame has stored a file
  \<^verbatim>\<open>a\<close>, because \<^verbatim>\<open>makedirs\<close> then finds a file where it needs the directory
  \<^verbatim>\<open>./workspace/a\<close> and raises \<^verbatim>\<open>FileExistsError\<close>; only the script of the first
  frame has been sent.
\<close>

theorem second_message_depends_on_first:
  "sent (snd (handle_client
      [Some (JObj [(''type'', JStr ''message''), (''content'', JStr ''two''),
                   (''media'', JArr [JObj [(''name'', JStr ''a/b'')]])])] init_state))
     = scripted_reply
   \<and> sent (snd (handle_client
      [Some (JObj [(''type'', JStr ''message''), (''content'', JStr ''one''),
                   (''media'', JArr [JObj [(''name'', JStr ''a'')]])]),
       Some (JObj [(''type'', JStr ''message''), (''content'', JStr ''two''),
                   (''media'', JArr [JObj [(''name'', JStr ''a/b'')]])])] init_state))
     = scripted_reply
   \<and> fst (handle_client
      [Some (JObj [(''type'', JStr ''message''), (''content'', JStr ''one''),
                   (''media'', JArr [JObj [(''name'', JStr ''a'')]])]),
       Some (JObj [(''type'', JStr ''message''), (''content'', JStr ''two''),
                   (''media'', JArr [JObj [(''name'', JStr ''a/b'')]])])] init_state)
     = Raised FileExistsError"
  by code_simp

section \<open>Saving files\<close>

lemma join_root_a_txt: "os_path_join workspace_root [''a.txt''] = ''./workspace/a.txt''"
  by (simp add: os_path_join_def join2_def workspace_root_def startswith_def endswith_def)

lemma join_root_media_x_png:
  "os_path_join workspace_root [''media'', ''x.png''] = ''./workspace/media/x.png''"
  by (simp add: os_path_join_def join2_def workspace_root_def startswith_def endswith_def)

lemma dirname_a_txt: "os_path_dirname ''./workspace/a.txt'' = ''./workspace''"
  by (simp add: os_path_dirname_def os_path_split_def rstrip_slash_def)

lemma dirname_x_png: "os_path_dirname ''./workspace/media/x.png'' = ''./workspace/media''"
  by (simp add: os_path_dirname_def os_path_split_def rstrip_slash_def)

lemma split_dir_root: "split_dir ''./workspace'' = (''.'', ''workspace'')"
  by (simp add: split_dir_def os_path_split_def rstrip_slash_def)

lemma split_dir_media: "split_dir ''./workspace/media'' = (''./workspace'', ''media'')"
  by (simp add: split_dir_def os_path_split_def rstrip_slash_def)

lemma stat_cwd:
  "entries fs (cwd fs) = Some Dir \<Longrightarrow> os_stat fs ''.'' = Inr Dir"
  by (simp add: os_stat_def has_nul_def pieces_def start_def startswith_def step_def)

lemma stat_root:
  "entries fs (cwd fs) = Some Dir \<Longrightarrow>
   os_stat fs ''./workspace'' =
     (case entries fs (cwd fs @ [''workspace'']) of
        None \<Rightarrow> Inl FileNotFoundError | Some e \<Rightarrow> Inr e)"
  by (simp add: os_stat_def has_nul_def pieces_def start_def startswith_def endswith_def step_def
      split: option.splits entry.splits)

lemma mkdir_root:
  "entries fs (cwd fs) = Some Dir \<Longrightarrow>
   os_mkdir ''./workspace'' fs =
     (case entries fs (cwd fs @ [''workspace'']) of
        None \<Rightarrow> Inr (fs\<lparr>entries := (entries fs)(cwd fs @ [''workspace''] \<mapsto> Dir)\<rparr>)
      | Some e \<Rightarrow> Inl FileExistsError)"
  by (simp add: os_mkdir_def has_nul_def pieces_def start_def startswith_def step_def
      resolve_dir_def split: option.splits)

lemma makedirs_root:
  assumes "entries fs (cwd fs) = Some Dir"
    and "entries fs (cwd fs @ [''workspace'']) \<in> {None, Some Dir}"
  shows "os_makedirs ''./workspace'' fs =
           (Returned, fs\<lparr>entries := (entries fs)(cwd fs @ [''workspace''] \<mapsto> Dir)\<rparr>)"
proof -
  have "os_path_exists fs ''.''"
    using assms(1) by (simp add: os_path_exists_def stat_cwd)
  then have "os_makedirs ''./workspace'' fs = mkdir_exist_ok ''./workspace'' fs"
    by (simp add: os_makedirs.simps [of "''./workspace''"] split_dir_root)
  also have "\<dots> = (Returned, fs\<lparr>entries := (entries fs)(cwd fs @ [''workspace''] \<mapsto> Dir)\<rparr>)"
  proof (cases "entries fs (cwd fs @ [''workspace''])")
    case None
    then show ?thesis
      using assms(1) by (simp add: mkdir_exist_ok_def mkdir_root)
  next
    case (Some e)
    with assms(2) have dir: "entries fs (cwd fs @ [''workspace'']) = Some Dir"
      by simp
    then have "(entries fs)(cwd fs @ [''workspace''] \<mapsto> Dir) = entries fs"
      by (rule map_upd_triv)
    with dir assms(1) show ?thesis
      by (simp add: mkdir_exist_ok_def mkdir_root os_path_isdir_def stat_root)
  qed
  finally show ?thesis .
qed


lemma stat_media:
  "entries fs (cwd fs) = Some Dir \<Longrightarrow> entries fs (cwd fs @ [''workspace'']) = Some Dir \<Longrightarrow>
   os_stat fs ''./workspace/media'' =
     (case entries fs (cwd fs @ [''workspace'', ''media'']) of
        None \<Rightarrow> Inl FileNotFoundError | Some e \<Rightarrow> Inr e)"
  by (simp add: os_stat_def has_nul_def pieces_def start_def startswith_def endswith_def step_def
      split: option.splits entry.splits)

lemma mkdir_media:
  "entries fs (cwd fs) = Some Dir \<Longrightarrow> entries fs (cwd fs @ [''workspace'']) = Some Dir \<Longrightarrow>
   os_mkdir ''./workspace/media'' fs =
     (case entries fs (cwd fs @ [''workspace'', ''media'']) of
        None \<Rightarrow> Inr (fs\<lparr>entries := (entries fs)(cwd fs @ [''workspace'', ''media''] \<mapsto> Dir)\<rparr>)
      | Some e \<Rightarrow> Inl FileExistsError)"
  by (simp add: os_mkdir_def has_nul_def pieces_def start_def startswith_def step_def
      resolve_dir_def split: option.splits)

lemma mkdir_exist_ok_media:
  assumes "entries fs (cwd fs) = Some Dir"
    and "entries fs (cwd fs @ [''workspace'']) = Some Dir"
    and "entries fs (cwd fs @ [''workspace'', ''media'']) \<in> {None, Some Dir}"
  shows "mkdir_exist_ok ''./workspace/media'' fs =
           (Returned, fs\<lparr>entries := (entries fs)(cwd fs @ [''workspace'', ''media''] \<mapsto> Dir)\<rparr>)"
proof (cases "entries fs (cwd fs @ [''workspace'', ''media''])")
  case None
  then show ?thesis
    using assms(1,2) by (simp add: mkdir_exist_ok_def mkdir_media)
next
  case (Some e)
  with assms(3) have dir: "entries fs (cwd fs @ [''workspace'', ''media'']) = Some Dir"
    by simp
  then have "(entries fs)(cwd fs @ [''workspace'', ''media''] \<mapsto> Dir) = entries fs"
    by (rule map_upd_triv)
  with dir assms(1,2) show ?thesis
    by (simp add: mkdir_exist_ok_def mkdir_media os_path_isdir_def stat_media)
qed

lemma makedirs_media:
  assumes "entries fs (cwd fs) = Some Dir"
    and "entries fs (cwd fs @ [''workspace'']) \<in> {None, Some Dir}"
    and "entries fs (cwd fs @ [''workspace'', ''media'']) \<in> {None, Some Dir}"
  shows "os_makedirs ''./workspace/media'' fs =
           (Returned, fs\<lparr>entries := (entries fs)(cwd fs @ [''workspace''] \<mapsto> Dir,
                                                  cwd fs @ [''workspace'', ''media''] \<mapsto> Dir)\<rparr>)"
proof (cases "entries fs (cwd fs @ [''workspace''])")
  case None
  let ?fs1 = "fs\<lparr>entries := (entries fs)(cwd fs @ [''workspace''] \<mapsto> Dir)\<rparr>"
  from None assms(1) have "\<not> os_path_exists fs ''./workspace''"
    by (simp add: os_path_exists_def stat_root)
  then have "os_makedirs ''./workspace/media'' fs = mkdir_exist_ok ''./workspace/media'' ?fs1"
    using makedirs_root [OF assms(1,2)]
    by (simp add: os_makedirs.simps [of "''./workspace/media''"] split_dir_media)
  also have "\<dots> = (Returned, ?fs1\<lparr>entries := (entries ?fs1)(cwd ?fs1 @ [''workspace'', ''media''] \<mapsto> Dir)\<rparr>)"
    using assms by (intro mkdir_exist_ok_media) simp_all
  finally show ?thesis by simp
next
  case (Some e)
  with assms(2) have dir: "entries fs (cwd fs @ [''workspace'']) = Some Dir"
    by simp
  then have same: "(entries fs)(cwd fs @ [''workspace''] \<mapsto> Dir) = entries fs"
    by (rule map_upd_triv)
  from dir assms(1) have "os_path_exists fs ''./workspace''"
    by (simp add: os_path_exists_def stat_root)
  then have "os_makedirs ''./workspace/media'' fs = mkdir_exist_ok ''./workspace/media'' fs"
    by (simp add: os_makedirs.simps [of "''./workspace/media''"] split_dir_media)
  with mkdir_exist_ok_media [OF assms(1) dir assms(3)] same show ?thesis
    by simp
qed

lemma open_a_txt:
  assumes "entries fs (cwd fs) = Some Dir"
    and "entries fs (cwd fs @ [''workspace'']) = Some Dir"
    and "entries fs (cwd fs @ [''workspace'', ''a.txt'']) \<noteq> Some Dir"
  shows "os_open_w ''./workspace/a.txt'' fs =
           Inr (cwd fs @ [''workspace'', ''a.txt''],
                fs\<lparr>entries := (entries fs)(cwd fs @ [''workspace'', ''a.txt''] \<mapsto> File [])\<rparr>)"
  using assms
  by (simp add: os_open_w_def has_nul_def pieces_def start_def startswith_def endswith_def
      step_def resolve_dir_def split: option.splits entry.splits)

lemma open_x_png:
  assumes "entries fs (cwd fs) = Some Dir"
    and "entries fs (cwd fs @ [''workspace'']) = Some Dir"
    and "entries fs (cwd fs @ [''workspace'', ''media'']) = Some Dir"
    and "entries fs (cwd fs @ [''workspace'', ''media'', ''x.png'']) \<noteq> Some Dir"
  shows "os_open_w ''./workspace/media/x.png'' fs =
           Inr (cwd fs @ [''workspace'', ''media'', ''x.png''],
                fs\<lparr>entries := (entries fs)(cwd fs @ [''workspace'', ''media'', ''x.png''] \<mapsto> File [])\<rparr>)"
  using assms
  by (simp add: os_open_w_def has_nul_def pieces_def start_def startswith_def endswith_def
      step_def resolve_dir_def split: option.splits entry.splits)

lemma save_a_txt:
  assumes "entries fs (cwd fs) = Some Dir"
    and "entries fs (cwd fs @ [''workspace'']) \<in> {None, Some Dir}"
    and "entries fs (cwd fs @ [''workspace'', ''a.txt'']) \<noteq> Some Dir"
  shows "save_uploaded_file
           (JObj [(''name'', JStr ''a.txt''), (''content'', JStr s), (''type'', JStr ''text/plain'')]) fs =
         (Returned, fs\<lparr>entries := (entries fs)(cwd fs @ [''workspace''] \<mapsto> Dir,
                                                cwd fs @ [''workspace'', ''a.txt''] \<mapsto> File s)\<rparr>)"
proof -
  let ?fs1 = "fs\<lparr>entries := (entries fs)(cwd fs @ [''workspace''] \<mapsto> Dir)\<rparr>"
  have "os_open_w ''./workspace/a.txt'' ?fs1 =
          Inr (cwd ?fs1 @ [''workspace'', ''a.txt''],
               ?fs1\<lparr>entries := (entries ?fs1)(cwd ?fs1 @ [''workspace'', ''a.txt''] \<mapsto> File [])\<rparr>)"
    using assms by (intro open_a_txt) simp_all
  then have "write_file ''./workspace/a.txt'' (JStr s) ?fs1 =
          (Returned, fs\<lparr>entries := (entries fs)(cwd fs @ [''workspace''] \<mapsto> Dir,
                                                 cwd fs @ [''workspace'', ''a.txt''] \<mapsto> File s)\<rparr>)"
    by (simp add: write_file_def write_text_def)
  then show ?thesis
    using makedirs_root [OF assms(1,2)]
    by (simp add: save_uploaded_file_def startswith_def join_root_a_txt dirname_a_txt)
qed

lemma save_x_png:
  assumes "entries fs (cwd fs) = Some Dir"
    and "entries fs (cwd fs @ [''workspace'']) \<in> {None, Some Dir}"
    and "entries fs (cwd fs @ [''workspace'', ''media'']) \<in> {None, Some Dir}"
    and "entries fs (cwd fs @ [''workspace'', ''media'', ''x.png'']) \<noteq> Some Dir"
  shows "save_uploaded_file
           (JObj [(''name'', JStr ''x.png''), (''content'', c), (''type'', JStr ''image/png'')]) fs =
         (case c of JStr s \<Rightarrow> Returned | _ \<Rightarrow> Raised TypeError,
          fs\<lparr>entries := (entries fs)(cwd fs @ [''workspace''] \<mapsto> Dir,
                                      cwd fs @ [''workspace'', ''media''] \<mapsto> Dir,
                                      cwd fs @ [''workspace'', ''media'', ''x.png''] \<mapsto>
                                        File (case c of JStr s \<Rightarrow> s | _ \<Rightarrow> []))\<rparr>)"
proof -
  let ?fs1 = "fs\<lparr>entries := (entries fs)(cwd fs @ [''workspace''] \<mapsto> Dir,
                                           cwd fs @ [''workspace'', ''media''] \<mapsto> Dir)\<rparr>"
  have "os_open_w ''./workspace/media/x.png'' ?fs1 =
          Inr (cwd ?fs1 @ [''workspace'', ''media'', ''x.png''],
               ?fs1\<lparr>entries := (entries ?fs1)(cwd ?fs1 @ [''workspace'', ''media'', ''x.png''] \<mapsto> File [])\<rparr>)"
    using assms by (intro open_x_png) simp_all
  then have "write_file ''./workspace/media/x.png'' c ?fs1 =
         (case c of JStr s \<Rightarrow> Returned | _ \<Rightarrow> Raised TypeError,
          fs\<lparr>entries := (entries fs)(cwd fs @ [''workspace''] \<mapsto> Dir,
                                      cwd fs @ [''workspace'', ''media''] \<mapsto> Dir,
                                      cwd fs @ [''workspace'', ''media'', ''x.png''] \<mapsto>
                                        File (case c of JStr s \<Rightarrow> s | _ \<Rightarrow> []))\<rparr>)"
    by (cases c) (simp_all add: write_file_def write_text_def)
  then show ?thesis
    using makedirs_media [OF assms(1,2,3)]
    by (simp add: save_uploaded_file_def startswith_def join_root_media_x_png dirname_x_png)
qed

lemma stat_a_txt:
  "entries fs (cwd fs) = Some Dir \<Longrightarrow> entries fs (cwd fs @ [''workspace'']) = Some Dir \<Longrightarrow>
   entries fs (cwd fs @ [''workspace'', ''a.txt'']) = Some (File s) \<Longrightarrow>
   os_stat fs ''./workspace/a.txt'' = Inr (File s)"
  by (simp add: os_stat_def has_nul_def pieces_def start_def startswith_def endswith_def step_def)

lemma stat_x_png:
  "entries fs (cwd fs) = Some Dir \<Longrightarrow> entries fs (cwd fs @ [''workspace'']) = Some Dir \<Longrightarrow>
   entries fs (cwd fs @ [''workspace'', ''media'']) = Some Dir \<Longrightarrow>
   entries fs (cwd fs @ [''workspace'', ''media'', ''x.png'']) = Some (File s) \<Longrightarrow>
   os_stat fs ''./workspace/media/x.png'' = Inr (File s)"
  by (simp add: os_stat_def has_nul_def pieces_def start_def startswith_def endswith_def step_def)

text \<open>
  C4. On a disk where the working directory exists and \<^verbatim>\<open>./workspace\<close> is a directory
  or absent: the writer called with name \<^verbatim>\<open>a.txt\<close>, content \<^verbatim>\<open>hi\<close> and type
  \<^verbatim>\<open>text/plain\<close> returns and leaves a file at \<^verbatim>\<open>./workspace/a.txt\<close> with the content
  \<^verbatim>\<open>hi\<close> (unless a directory has that name), and called with name \<^verbatim>\<open>x.png\<close>, type
  \<^verbatim>\<open>image/png\<close> and any content it leaves a file at \<^verbatim>\<open>./workspace/media/x.png\<close> (when
  \<^verbatim>\<open>./workspace/media\<close> is a directory or absent and no directory has the name of the
  file). For a content that is a string the call returns and the file holds the string;
  for another JSON value the file is there and empty, and \<^verbatim>\<open>write\<close> has raised
  \<^verbatim>\<open>TypeError\<close>.
\<close>

theorem workspace_writer_examples:
  assumes "entries fs (cwd fs) = Some Dir"
    and "entries fs (cwd fs @ [''workspace'']) \<in> {None, Some Dir}"
  shows "(entries fs (cwd fs @ [''workspace'', ''a.txt'']) \<noteq> Some Dir \<longrightarrow>
            fst (save_uploaded_file
              (JObj [(''name'', JStr ''a.txt''), (''content'', JStr ''hi''), (''type'', JStr ''text/plain'')])
              fs) = Returned
            \<and> os_stat (snd (save_uploaded_file
                 (JObj [(''name'', JStr ''a.txt''), (''content'', JStr ''hi''), (''type'', JStr ''text/plain'')])
                 fs)) (workspace_root @ ''/a.txt'') = Inr (File ''hi''))
         \<and> (entries fs (cwd fs @ [''workspace'', ''media'']) \<in> {None, Some Dir}
            \<and> entries fs (cwd fs @ [''workspace'', ''media'', ''x.png'']) \<noteq> Some Dir \<longrightarrow>
            fst (save_uploaded_file
              (JObj [(''name'', JStr ''x.png''), (''content'', c), (''type'', JStr ''image/png'')])
              fs) = (case c of JStr s \<Rightarrow> Returned | _ \<Rightarrow> Raised TypeError)
            \<and> os_stat (snd (save_uploaded_file
                 (JObj [(''name'', JStr ''x.png''), (''content'', c), (''type'', JStr ''image/png'')])
                 fs)) (workspace_root @ ''/media/x.png'')
                = Inr (File (case c of JStr s \<Rightarrow> s | _ \<Rightarrow> [])))"
proof (intro conjI impI)
  assume free: "entries fs (cwd fs @ [''workspace'', ''a.txt'']) \<noteq> Some Dir"
  note saved = save_a_txt [OF assms free, of "''hi''"]
  show "fst (save_uploaded_file
          (JObj [(''name'', JStr ''a.txt''), (''content'', JStr ''hi''), (''type'', JStr ''text/plain'')])
          fs) = Returned"
    by (simp add: saved)
  show "os_stat (snd (save_uploaded_file
          (JObj [(''name'', JStr ''a.txt''), (''content'', JStr ''hi''), (''type'', JStr ''text/plain'')])
          fs)) (workspace_root @ ''/a.txt'') = Inr (File ''hi'')"
    using assms(1) by (simp add: saved workspace_root_def stat_a_txt)
next
  assume "entries fs (cwd fs @ [''workspace'', ''media'']) \<in> {None, Some Dir}
          \<and> entries fs (cwd fs @ [''workspace'', ''media'', ''x.png'']) \<noteq> Some Dir"
  then have media: "entries fs (cwd fs @ [''workspace'', ''media'']) \<in> {None, Some Dir}"
    and free: "entries fs (cwd fs @ [''workspace'', ''media'', ''x.png'']) \<noteq> Some Dir"
    by simp_all
  note saved = save_x_png [OF assms media free, of c]
  show "fst (save_uploaded_file
          (JObj [(''name'', JStr ''x.png''), (''content'', c), (''type'', JStr ''image/png'')])
          fs) = (case c of JStr s \<Rightarrow> Returned | _ \<Rightarrow> Raised TypeError)"
    by (simp add: saved)
  show "os_stat (snd (save_uploaded_file
          (JObj [(''name'', JStr ''x.png''), (''content'', c), (''type'', JStr ''image/png'')])
          fs)) (workspace_root @ ''/media/x.png'')
        = Inr (File (case c of JStr s \<Rightarrow> s | _ \<Rightarrow> []))"
    using assms(1) by (simp add: saved workspace_root_def stat_x_png)
qed

theorem workspace_writer_examples_witness:
  "os_stat (snd (save_uploaded_file
      (JObj [(''name'', JStr ''a.txt''), (''content'', JStr ''hi''), (''type'', JStr ''text/plain'')])
      fresh_disk)) ''./workspace/a.txt'' = Inr (File ''hi'')
   \<and> os_stat (snd (save_uploaded_file
      (JObj [(''name'', JStr ''x.png''), (''content'', JStr ''PNG''), (''type'', JStr ''image/png'')])
      fresh_disk)) ''./workspace/media/x.png'' = Inr (File ''PNG'')"
  using workspace_writer_examples [of fresh_disk "JStr ''PNG''"]
  by (simp add: fresh_disk_def workspace_root_def)

text \<open>
  C2. The claim wants a \<^verbatim>\<open>file_upload\<close> frame stored as the writer
  \<^verbatim>\<open>save_uploaded_file\<close> stores a file, missing directories created. The code of
  \<^verbatim>\<open>handle_file_upload\<close> opens the file without creating any directory. On the starting
  disk the frame with name \<^verbatim>\<open>a.txt\<close> ends in \<^verbatim>\<open>FileNotFoundError\<close>, nothing is
  stored and nothing is sent, while the writer stores the same payload. The same happens
  once \<^verbatim>\<open>./workspace\<close> exists, for a name below a directory that does not exist yet.
\<close>

theorem file_upload_needs_existing_directory:
  "fst (handle_frame (JObj [(''type'', JStr ''file_upload''), (''name'', JStr ''a.txt''),
                            (''content'', JStr ''hi'')]) init_state) = Raised FileNotFoundError
   \<and> os_stat (disk (snd (handle_frame (JObj [(''type'', JStr ''file_upload''), (''name'', JStr ''a.txt''),
                            (''content'', JStr ''hi'')]) init_state))) ''./workspace/a.txt''
       = Inl FileNotFoundError
   \<and> sent (snd (handle_frame (JObj [(''type'', JStr ''file_upload''), (''name'', JStr ''a.txt''),
                            (''content'', JStr ''hi'')]) init_state)) = []
   \<and> fst (save_uploaded_file (JObj [(''type'', JStr ''file_upload''), (''name'', JStr ''a.txt''),
                            (''content'', JStr ''hi'')]) (disk init_state)) = Returned
   \<and> os_stat (snd (save_uploaded_file (JObj [(''type'', JStr ''file_upload''), (''name'', JStr ''a.txt''),
                            (''content'', JStr ''hi'')]) (disk init_state))) ''./workspace/a.txt''
       = Inr (File ''hi'')
   \<and> fst (handle_client
        [Some (JObj [(''type'', JStr ''message''), (''content'', JStr ''hello''),
                     (''media'', JArr [JObj [(''name'', JStr ''a.txt''), (''content'', JStr ''hi'')]])]),
         Some (JObj [(''type'', JStr ''file_upload''), (''name'', JStr ''notes/b.txt''),
                     (''content'', JStr ''hi'')])] init_state) = Raised FileNotFoundError
   \<and> fst (save_uploaded_file
        (JObj [(''type'', JStr ''file_upload''), (''name'', JStr ''notes/b.txt''), (''content'', JStr ''hi'')])
        (disk (snd (handle_frame
           (JObj [(''type'', JStr ''message''), (''content'', JStr ''hello''),
                  (''media'', JArr [JObj [(''name'', JStr ''a.txt''), (''content'', JStr ''hi'')]])])
           init_state)))) = Returned"
  by code_simp

end
